theory Spec2Isabelle
  imports Main "HOL-Library.Char_ord" "HOL-Library.List_Lexorder"
begin

section \<open>JavaScript strings\<close>

text \<open>
  Strings are lists of 8-bit characters, read as the code points U+0000 to U+00FF. The
  pictographs that open some step labels of a generated workflow lie outside that range
  and are left out of the labels below; the classifier only ever looks for ASCII
  substrings. The functions of this section are the built-ins of \<^verbatim>\<open>String.prototype\<close>
  and \<^verbatim>\<open>Array.prototype\<close> that the sources call.
\<close>

definition lowerChar :: "char \<Rightarrow> char" where
  "lowerChar c =
     (let n = (of_char c :: nat) in
      if (65 \<le> n \<and> n \<le> 90) \<or> (192 \<le> n \<and> n \<le> 222 \<and> n \<noteq> 215)
      then char_of (n + 32) else c)"

definition str_toLowerCase :: "string \<Rightarrow> string" where
  "str_toLowerCase s = map lowerChar s"

fun str_startsWith :: "string \<Rightarrow> string \<Rightarrow> bool" where
  "str_startsWith s [] = True"
| "str_startsWith [] (c # cs) = False"
| "str_startsWith (x # xs) (c # cs) = (x = c \<and> str_startsWith xs cs)"

fun str_includes :: "string \<Rightarrow> string \<Rightarrow> bool" where
  "str_includes [] t = (t = [])"
| "str_includes (x # xs) t = (str_startsWith (x # xs) t \<or> str_includes xs t)"

text \<open>White space and line terminators of ECMAScript within U+0000 to U+00FF.\<close>

definition isLineTerminator :: "char \<Rightarrow> bool" where
  "isLineTerminator c = (c = CHR 0x0A \<or> c = CHR 0x0D)"

definition isWhiteSpace :: "char \<Rightarrow> bool" where
  "isWhiteSpace c =
     (c = CHR 0x09 \<or> c = CHR 0x0A \<or> c = CHR 0x0B \<or> c = CHR 0x0C \<or> c = CHR 0x0D \<or>
      c = CHR 0x20 \<or> c = CHR 0xA0)"

definition str_trim :: "string \<Rightarrow> string" where
  "str_trim s = rev (dropWhile isWhiteSpace (rev (dropWhile isWhiteSpace s)))"

text \<open>The maximal runs of a string without a line terminator, in order.\<close>

fun splitLines :: "string \<Rightarrow> string list" where
  "splitLines [] = [[]]"
| "splitLines (c # cs) =
     (if isLineTerminator c then [] # splitLines cs
      else (case splitLines cs of [] \<Rightarrow> [[c]] | l # ls \<Rightarrow> (c # l) # ls))"

text \<open>\<^verbatim>\<open>Array.prototype.join\<close> on an array of strings.\<close>

fun str_join :: "string \<Rightarrow> string list \<Rightarrow> string" where
  "str_join sep [] = []"
| "str_join sep [x] = x"
| "str_join sep (x # y # ys) = x @ sep @ str_join sep (y # ys)"

text \<open>\<^verbatim>\<open>a || b\<close> on an optional string: an absent or empty \<open>a\<close> is falsy.\<close>

definition orElse :: "string option \<Rightarrow> string \<Rightarrow> string" where
  "orElse a b = (case a of None \<Rightarrow> b | Some s \<Rightarrow> if s = [] then b else s)"


section \<open>Configuration\<close>

text \<open>
  \<^verbatim>\<open>FormValues\<close> as command-extractor.ts declares it. The ten optional string fields
  that no function below reads (projectName, expoVersion, platform, buildType,
  nodeVersion, expoCli, eas, reactNativeCli, fastlane, workflow) are left out. An
  optional field is an \<open>option\<close>; \<open>None\<close> is \<^verbatim>\<open>undefined\<close>.
\<close>

datatype packageManager = Yarn | Npm | Pnpm

fun packageManagerStr :: "packageManager \<Rightarrow> string" where
  "packageManagerStr Yarn = ''yarn''"
| "packageManagerStr Npm = ''npm''"
| "packageManagerStr Pnpm = ''pnpm''"

datatype notificationType = Slack | Discord | Both

record AdvancedOptions =
  iOSSupport :: bool
  publishToExpo :: bool
  publishToStores :: bool
  jestTests :: bool
  rntlTests :: bool
  renderHookTests :: bool
  caching :: bool
  notifications :: bool
  notificationType :: "notificationType option"

record FormValues =
  packageManager :: "packageManager option"
  storageType :: "string option"
  buildTypes :: "string list"
  tests :: "string list"
  triggers :: "string list"
  advancedOptions :: "AdvancedOptions option"


section \<open>Parsed workflow documents\<close>

text \<open>
  The interfaces \<^verbatim>\<open>WorkflowStep\<close>, \<^verbatim>\<open>WorkflowJob\<close> and \<^verbatim>\<open>WorkflowYaml\<close> of
  command-extractor.ts. Values typed \<^verbatim>\<open>unknown\<close> are YAML nodes. A
  \<^verbatim>\<open>Record<string, v>\<close> is an association list in the order of \<^verbatim>\<open>Object.keys\<close>.
  Field names carry a prefix, since \<open>name\<close>, \<open>if\<close>, \<open>with\<close> and \<open>on\<close> are taken. The
  field \<^verbatim>\<open>needs\<close>, one identifier or a list of them, is a list.
\<close>

datatype yaml = YStr string | YNum int | YSeq "yaml list" | YMap "(string \<times> yaml) list"

record WorkflowStep =
  step_name :: "string option"
  step_run :: "string option"
  step_uses :: "string option"
  step_id :: "string option"
  step_if :: "string option"
  step_with :: "(string \<times> yaml) list option"
  step_env :: "(string \<times> string) list option"

record WorkflowJob =
  job_steps :: "WorkflowStep list option"
  job_needs :: "string list option"
  job_runs_on :: "string option"
  job_if :: "string option"
  job_strategy :: "(string \<times> yaml) list option"

record WorkflowYaml =
  wf_name :: "string option"
  wf_on :: "(string \<times> yaml) list option"
  wf_env :: "(string \<times> string) list option"
  wf_jobs :: "(string \<times> WorkflowJob) list option"


section \<open>Command extractor (command-extractor.ts)\<close>

datatype category =
  Install | Typecheck | Lint | Format | Jest | Rntl | Hooks | CacheDir | EasInstall
  | Build | Other

fun categoryStr :: "category \<Rightarrow> string" where
  "categoryStr Install = ''install''"
| "categoryStr Typecheck = ''typecheck''"
| "categoryStr Lint = ''lint''"
| "categoryStr Format = ''format''"
| "categoryStr Jest = ''jest''"
| "categoryStr Rntl = ''rntl''"
| "categoryStr Hooks = ''hooks''"
| "categoryStr CacheDir = ''cache-dir''"
| "categoryStr EasInstall = ''eas-install''"
| "categoryStr Build = ''build''"
| "categoryStr Other = ''other''"

text \<open>
  The test \<^verbatim>\<open>/^(yarn install|npm install|pnpm install)$/m\<close>: with the multi-line flag
  the anchors match at every line boundary, and no alternative holds a line terminator,
  so the pattern matches exactly when some line is one of the three commands.
\<close>

definition installLine :: "string \<Rightarrow> bool" where
  "installLine s =
     list_ex (\<lambda>l. l = ''yarn install'' \<or> l = ''npm install'' \<or> l = ''pnpm install'')
       (splitLines s)"

definition categorizeCommand :: "string \<Rightarrow> string \<Rightarrow> category" where
  "categorizeCommand stepName command =
     (let lower = str_toLowerCase command;
          nameLower = str_toLowerCase stepName
      in
      if str_includes nameLower ''install dependencies'' \<or> installLine (str_trim command)
      then Install
      else if str_includes nameLower ''typescript'' \<or> str_includes lower ''tsc'' \<or>
              str_includes lower ''typecheck'' \<or> str_includes lower ''type-check''
      then Typecheck
      else if str_includes nameLower ''eslint'' \<or> str_includes lower ''eslint'' \<or>
              str_includes lower ''run lint''
      then Lint
      else if str_includes nameLower ''prettier'' \<or> str_includes lower ''prettier'' \<or>
              str_includes lower ''format:check''
      then Format
      else if str_includes nameLower ''renderhook'' \<or> str_includes lower ''test:hooks''
      then Hooks
      else if str_includes nameLower ''react native testing library'' \<or>
              str_includes lower ''test:rntl''
      then Rntl
      else if str_includes nameLower ''jest'' \<or>
              (str_includes nameLower ''test'' \<and> \<not> str_includes nameLower ''rntl'' \<and>
               \<not> str_includes nameLower ''hook'' \<and>
               \<not> str_includes nameLower ''react native testing'')
      then (if str_includes lower ''test:rntl'' then Rntl
            else if str_includes lower ''test:hooks'' then Hooks
            else Jest)
      else if str_includes nameLower ''cache directory'' \<or> str_includes lower ''cache dir'' \<or>
              str_includes lower ''npm config get cache'' \<or>
              str_includes lower ''pnpm store path''
      then CacheDir
      else if str_includes lower ''eas-cli'' \<or> str_includes lower ''yarn global add eas'' \<or>
              str_includes lower ''npm install -g eas'' \<or>
              str_includes lower ''pnpm add -g eas''
      then EasInstall
      else if str_includes lower ''eas build'' \<or> str_includes lower ''eas submit''
      then Build
      else Other)"

text \<open>
  The test \<^verbatim>\<open>/\$\{\{.*?\}\}/\<close>: an opening marker followed, before the next line
  terminator, by a closing one.
\<close>

fun hasGHAExpressions :: "string \<Rightarrow> bool" where
  "hasGHAExpressions [] = False"
| "hasGHAExpressions (c # cs) =
     ((str_startsWith (c # cs) ''${{'' \<and>
       str_includes (takeWhile (\<lambda>x. \<not> isLineTerminator x) (drop 3 (c # cs))) ''}}'') \<or>
      hasGHAExpressions cs)"

record ExtractedCommand =
  stepName :: string
  command :: string
  category :: category
  hasGHA :: bool

text \<open>The command object that both extraction loops build from a step with a command.\<close>

definition mkCommand :: "WorkflowStep \<Rightarrow> string \<Rightarrow> ExtractedCommand" where
  "mkCommand step run =
     \<lparr>stepName = orElse (step_name step) ''unnamed'',
      command = run,
      category = categorizeCommand (orElse (step_name step) '''') run,
      hasGHA = hasGHAExpressions run\<rparr>"

text \<open>
  The compiler \<^verbatim>\<open>generateWorkflowYaml\<close> lives in the web application and is imported by
  the extractor; the extractor only sees what \<^verbatim>\<open>yaml.load\<close> reads back from its
  output. The functions below therefore take that composition as a parameter \<open>gen\<close>,
  from a configuration to the parsed document (\<open>None\<close> is a \<^verbatim>\<open>null\<close> document). The
  composition is taken to return; the functions below raise nothing of their own.
\<close>

type_synonym generator = "FormValues \<Rightarrow> WorkflowYaml option"

text \<open>The loop over the steps of the test job: a step counts when \<^verbatim>\<open>step.run\<close> is truthy.\<close>

fun testSteps :: "WorkflowStep list \<Rightarrow> ExtractedCommand list" where
  "testSteps [] = []"
| "testSteps (step # steps) =
     (case step_run step of
        None \<Rightarrow> testSteps steps
      | Some run \<Rightarrow>
          if run = [] then testSteps steps else mkCommand step run # testSteps steps)"

definition extractTestJobCommands :: "generator \<Rightarrow> FormValues \<Rightarrow> ExtractedCommand list" where
  "extractTestJobCommands gen config =
     (case gen config of
        None \<Rightarrow> []
      | Some parsed \<Rightarrow>
          (case wf_jobs parsed of
             None \<Rightarrow> []
           | Some jobs \<Rightarrow>
               (case map_of jobs ''test'' of
                  None \<Rightarrow> []
                | Some testJob \<Rightarrow>
                    (case job_steps testJob of
                       None \<Rightarrow> []
                     | Some steps \<Rightarrow> testSteps steps))))"

text \<open>
  The loop over the steps of the build job. \<open>includeBuildCommands\<close> is
  \<^verbatim>\<open>options?.includeBuildCommands\<close>: \<open>None\<close> when the options or the field are absent.
\<close>

fun buildSteps :: "bool option \<Rightarrow> WorkflowStep list \<Rightarrow> ExtractedCommand list" where
  "buildSteps includeBuildCommands [] = []"
| "buildSteps includeBuildCommands (step # steps) =
     (case step_run step of
        None \<Rightarrow> buildSteps includeBuildCommands steps
      | Some run \<Rightarrow>
          if run = [] then buildSteps includeBuildCommands steps
          else
            (let cmd = mkCommand step run in
             if includeBuildCommands \<noteq> Some True \<and>
                (category cmd = Build \<or> category cmd = Other)
             then buildSteps includeBuildCommands steps
             else cmd # buildSteps includeBuildCommands steps))"

definition extractBuildJobCommands ::
  "generator \<Rightarrow> FormValues \<Rightarrow> bool option \<Rightarrow> ExtractedCommand list" where
  "extractBuildJobCommands gen config includeBuildCommands =
     (case gen config of
        None \<Rightarrow> []
      | Some parsed \<Rightarrow>
          (case wf_jobs parsed of
             None \<Rightarrow> []
           | Some jobs \<Rightarrow>
               (case find (\<lambda>name. str_startsWith name ''build-and-'') (map fst jobs) of
                  None \<Rightarrow> []
                | Some buildJobName \<Rightarrow>
                    if buildJobName = [] then []
                    else
                      (case map_of jobs buildJobName of
                         None \<Rightarrow> []
                       | Some buildJob \<Rightarrow>
                           (case job_steps buildJob of
                              None \<Rightarrow> []
                            | Some steps \<Rightarrow> buildSteps includeBuildCommands steps)))))"

definition extractAllCommands ::
  "generator \<Rightarrow> FormValues \<Rightarrow> bool option \<Rightarrow> bool option \<Rightarrow> ExtractedCommand list" where
  "extractAllCommands gen config includeGHAExpressions includeBuildCommands =
     (let testCommands = extractTestJobCommands gen config;
          buildCommands = extractBuildJobCommands gen config includeBuildCommands;
          allCommands = testCommands @ buildCommands
      in if includeGHAExpressions \<noteq> Some True
         then filter (\<lambda>cmd. \<not> hasGHA cmd) allCommands
         else allCommands)"

text \<open>
  \<^verbatim>\<open>Array.prototype.sort\<close> without a comparator orders strings by their code units,
  which is the lexicographic order of the character lists.
\<close>

definition commandSignature :: "generator \<Rightarrow> FormValues \<Rightarrow> string" where
  "commandSignature gen config =
     str_join ''|''
       (sort (map (\<lambda>c. categoryStr (category c) @ '':'' @ str_trim (command c))
                (extractTestJobCommands gen config)))"


section \<open>Command runner (runner.ts): results\<close>

text \<open>\<^verbatim>\<open>CommandResult\<close>; the field names carry a prefix next to \<^verbatim>\<open>ExtractedCommand\<close>.\<close>

record CommandResult =
  r_stepName :: string
  r_command :: string
  r_category :: category
  r_exitCode :: int
  r_stdout :: string
  r_stderr :: string
  r_durationMs :: int
  r_skipped :: bool
  r_skipReason :: "string option"

definition allPassed :: "CommandResult list \<Rightarrow> bool" where
  "allPassed results =
     list_all (\<lambda>r. r_exitCode r = 0) (filter (\<lambda>r. \<not> r_skipped r) results)"


section \<open>Matrix generator (matrix-generator.ts)\<close>

datatype fixture = YarnApp | NpmApp

fun fixtureStr :: "fixture \<Rightarrow> string" where
  "fixtureStr YarnApp = ''yarn-app''"
| "fixtureStr NpmApp = ''npm-app''"

record MatrixEntry =
  name :: string
  config :: FormValues
  fixture :: fixture

text \<open>
  \<^verbatim>\<open>Partial<FormValues>\<close>: every key may be missing (\<open>None\<close>). A key that is present
  replaces the default when the object is spread last.
\<close>

record Overrides =
  o_packageManager :: "packageManager option"
  o_storageType :: "string option"
  o_buildTypes :: "string list option"
  o_tests :: "string list option"
  o_triggers :: "string list option"
  o_advancedOptions :: "AdvancedOptions option"

definition noOverrides :: Overrides where
  "noOverrides =
     \<lparr>o_packageManager = None, o_storageType = None, o_buildTypes = None, o_tests = None,
      o_triggers = None, o_advancedOptions = None\<rparr>"

definition defaultAdvancedOptions :: AdvancedOptions where
  "defaultAdvancedOptions =
     \<lparr>iOSSupport = False, publishToExpo = False, publishToStores = False,
      jestTests = False, rntlTests = False, renderHookTests = False, caching = True,
      notifications = False, notificationType = None\<rparr>"

definition baseConfig :: "Overrides \<Rightarrow> FormValues" where
  "baseConfig overrides =
     \<lparr>packageManager =
        (case o_packageManager overrides of None \<Rightarrow> Some Yarn | Some p \<Rightarrow> Some p),
      storageType =
        (case o_storageType overrides of None \<Rightarrow> Some ''github-release'' | Some s \<Rightarrow> Some s),
      buildTypes = (case o_buildTypes overrides of None \<Rightarrow> [''dev''] | Some b \<Rightarrow> b),
      tests = (case o_tests overrides of None \<Rightarrow> [] | Some t \<Rightarrow> t),
      triggers = (case o_triggers overrides of None \<Rightarrow> [''push-main''] | Some t \<Rightarrow> t),
      advancedOptions =
        (case o_advancedOptions overrides of
           None \<Rightarrow> Some defaultAdvancedOptions
         | Some a \<Rightarrow> Some a)\<rparr>"

text \<open>
  The parameter of the source is typed \<^verbatim>\<open>"yarn" | "npm" | undefined\<close>; the body only
  compares with \<^verbatim>\<open>"npm"\<close>, so every other value takes the second branch.
\<close>

definition fixtureForPkgMgr :: "packageManager option \<Rightarrow> fixture" where
  "fixtureForPkgMgr pkgMgr = (if pkgMgr = Some Npm then NpmApp else YarnApp)"

text \<open>The advanced options that the hand-picked entries spell out in full.\<close>

definition advanced :: "bool \<Rightarrow> bool \<Rightarrow> bool \<Rightarrow> bool \<Rightarrow> AdvancedOptions" where
  "advanced j r h c =
     \<lparr>iOSSupport = False, publishToExpo = False, publishToStores = False,
      jestTests = j, rntlTests = r, renderHookTests = h, caching = c,
      notifications = False, notificationType = None\<rparr>"

definition prEntry ::
  "string \<Rightarrow> packageManager \<Rightarrow> string list \<Rightarrow> AdvancedOptions option \<Rightarrow> fixture \<Rightarrow> MatrixEntry"
  where
  "prEntry n p t a f =
     \<lparr>name = n,
      config = baseConfig (noOverrides\<lparr>o_packageManager := Some p, o_tests := Some t,
                 o_advancedOptions := a\<rparr>),
      fixture = f\<rparr>"

definition generatePrMatrix :: "MatrixEntry list" where
  "generatePrMatrix =
     [prEntry ''npm-no-tests'' Npm [] None NpmApp,
      prEntry ''yarn-no-tests'' Yarn [] None YarnApp,
      prEntry ''npm-typescript-only'' Npm [''typescript''] None NpmApp,
      prEntry ''yarn-typescript-only'' Yarn [''typescript''] None YarnApp,
      prEntry ''npm-all-static'' Npm [''typescript'', ''eslint'', ''prettier''] None NpmApp,
      prEntry ''yarn-all-static'' Yarn [''typescript'', ''eslint'', ''prettier''] None YarnApp,
      prEntry ''npm-jest-only'' Npm [] (Some (advanced True False False True)) NpmApp,
      prEntry ''yarn-jest-only'' Yarn [] (Some (advanced True False False True)) YarnApp,
      prEntry ''npm-all-tests'' Npm [''typescript'', ''eslint'', ''prettier'']
        (Some (advanced True True True True)) NpmApp,
      prEntry ''yarn-all-tests'' Yarn [''typescript'', ''eslint'', ''prettier'']
        (Some (advanced True True True True)) YarnApp,
      prEntry ''npm-no-caching'' Npm [''typescript'', ''eslint'']
        (Some (advanced True False False False)) NpmApp,
      prEntry ''yarn-no-caching'' Yarn [''typescript'', ''eslint'']
        (Some (advanced True False False False)) YarnApp,
      prEntry ''npm-eslint-only'' Npm [''eslint''] None NpmApp,
      prEntry ''npm-rntl-hooks'' Npm [] (Some (advanced False True True True)) NpmApp,
      prEntry ''yarn-prettier-only'' Yarn [''prettier''] None YarnApp]"

text \<open>
  The loop pushes onto \<open>subsets\<close> while it walks a copy taken before the inner loop.
\<close>

definition allTestSubsets :: "string list list" where
  "allTestSubsets =
     fold (\<lambda>item subsets. subsets @ map (\<lambda>subset. subset @ [item]) subsets)
       [''typescript'', ''eslint'', ''prettier''] [[]]"

record JestCombo =
  jc_jestTests :: bool
  jc_rntlTests :: bool
  jc_renderHookTests :: bool

definition allJestCombinations :: "JestCombo list" where
  "allJestCombinations =
     fold (\<lambda>j combos.
        fold (\<lambda>r combos.
           fold (\<lambda>h combos.
              combos @ [\<lparr>jc_jestTests = j, jc_rntlTests = r, jc_renderHookTests = h\<rparr>])
             [False, True] combos)
          [False, True] combos)
       [False, True] []"

text \<open>The configuration, the description and the entry that one iteration builds.\<close>

definition nightlyConfig ::
  "packageManager \<Rightarrow> string list \<Rightarrow> JestCombo \<Rightarrow> bool \<Rightarrow> FormValues" where
  "nightlyConfig pkgMgr tests' jestCombo caching' =
     baseConfig (noOverrides\<lparr>o_packageManager := Some pkgMgr, o_tests := Some tests',
       o_advancedOptions :=
         Some \<lparr>iOSSupport = False, publishToExpo = False, publishToStores = False,
               jestTests = jc_jestTests jestCombo, rntlTests = jc_rntlTests jestCombo,
               renderHookTests = jc_renderHookTests jestCombo, caching = caching',
               notifications = False, notificationType = None\<rparr>\<rparr>)"

definition testDesc :: "string list \<Rightarrow> JestCombo \<Rightarrow> string" where
  "testDesc tests' jestCombo =
     orElse
       (Some (str_join ''-''
          (tests' @ (if jc_jestTests jestCombo then [''jest''] else []) @
           (if jc_rntlTests jestCombo then [''rntl''] else []) @
           (if jc_renderHookTests jestCombo then [''hooks''] else []))))
       ''no-tests''"

definition nightlyName :: "packageManager \<Rightarrow> string list \<Rightarrow> JestCombo \<Rightarrow> bool \<Rightarrow> string" where
  "nightlyName pkgMgr tests' jestCombo caching' =
     packageManagerStr pkgMgr @ ''-'' @ testDesc tests' jestCombo @
     (if caching' then [] else ''-nocache'')"

definition nightlyEntry ::
  "packageManager \<Rightarrow> string list \<Rightarrow> JestCombo \<Rightarrow> bool \<Rightarrow> MatrixEntry" where
  "nightlyEntry pkgMgr tests' jestCombo caching' =
     \<lparr>name = nightlyName pkgMgr tests' jestCombo caching',
      config = nightlyConfig pkgMgr tests' jestCombo caching',
      fixture = fixtureForPkgMgr (Some pkgMgr)\<rparr>"

text \<open>
  The body of the innermost loop, on the state of the generator: the set of the
  signatures seen and the entries pushed so far.
\<close>

definition nightlyBody ::
  "generator \<Rightarrow> packageManager \<Rightarrow> string list \<Rightarrow> JestCombo \<Rightarrow> bool \<Rightarrow>
   string set \<times> MatrixEntry list \<Rightarrow> string set \<times> MatrixEntry list" where
  "nightlyBody gen pkgMgr tests' jestCombo caching' st =
     (let sig = commandSignature gen (nightlyConfig pkgMgr tests' jestCombo caching') in
      if sig \<notin> fst st
      then (insert sig (fst st), snd st @ [nightlyEntry pkgMgr tests' jestCombo caching'])
      else st)"

definition cachingOptions :: "string list \<Rightarrow> JestCombo \<Rightarrow> bool list" where
  "cachingOptions tests' jestCombo =
     (let hasTests =
        (length tests' > 0 \<or> jc_jestTests jestCombo \<or> jc_rntlTests jestCombo \<or>
         jc_renderHookTests jestCombo)
      in if hasTests then [True, False] else [True])"

definition generateNightlyMatrix :: "generator \<Rightarrow> MatrixEntry list" where
  "generateNightlyMatrix gen =
     snd (fold (\<lambda>pkgMgr.
            fold (\<lambda>tests'.
              fold (\<lambda>jestCombo.
                fold (\<lambda>caching'. nightlyBody gen pkgMgr tests' jestCombo caching')
                  (cachingOptions tests' jestCombo))
                allJestCombinations)
              allTestSubsets)
          [Yarn, Npm] ({}, []))"

text \<open>
  The table \<open>buildTypeMap\<close> has exactly the three profiles of the loop as keys; a
  profile outside it is never looked up.
\<close>

definition buildTypeMap :: "(string \<times> string list) list" where
  "buildTypeMap =
     [(''development'', [''dev'']), (''production-apk'', [''prod-apk'']),
      (''production'', [''prod-aab''])]"

definition easEntry :: "packageManager \<Rightarrow> string \<Rightarrow> MatrixEntry" where
  "easEntry pkgMgr profile =
     \<lparr>name = packageManagerStr pkgMgr @ ''-eas-'' @ profile,
      config = baseConfig (noOverrides\<lparr>o_packageManager := Some pkgMgr,
                 o_buildTypes := map_of buildTypeMap profile, o_tests := Some []\<rparr>),
      fixture = fixtureForPkgMgr (Some pkgMgr)\<rparr>"

definition generateEasMatrix :: "MatrixEntry list" where
  "generateEasMatrix =
     fold (\<lambda>pkgMgr.
        fold (\<lambda>profile entries. entries @ [easEntry pkgMgr profile])
          [''development'', ''production-apk'', ''production''])
       [Yarn, Npm] []"


section \<open>The compiler\<close>

text \<open>
  Modelled from the spec: the compiler \<^verbatim>\<open>generateWorkflowYaml\<close>
  (webapp/app/utils/workflowGenerator.ts) is not among the sources; only its tests, its
  callers and some workflows it generated are. The definitions of this section follow
  the composition rules of section 4.1 of the specification. Literal labels and command
  texts are those that the repository's tests assert and that its example workflows
  show, without the pictograph that opens a label. The model produces the document that
  \<^verbatim>\<open>yaml.load\<close> reads back from the generated text.
\<close>

text \<open>
  Modelled from the spec: one row of the package-manager command table of section 4.1
  (dependency install, cache-directory query, lock-file name, global CLI install,
  type-check, lint, format-check, unit-test, RNTL-test, hook-test).
\<close>

record PmCommands =
  installCmd :: string
  cacheDirCmd :: string
  lockFile :: string
  globalCliCmd :: string
  typeCheckCmd :: string
  lintCmd :: string
  formatCheckCmd :: string
  unitTestCmd :: string
  rntlTestCmd :: string
  hookTestCmd :: string

text \<open>
  Modelled from the spec: the texts that neither the specification nor the tests and
  examples of the repository fix are a parameter of the compiler: the pnpm row of the
  command table, the command text of the build-job steps that the examples do not show
  in full, looked up by the label of the step, and the two notification steps. Nothing
  proved below depends on their values.
\<close>

record Unfixed =
  pnpmRow :: PmCommands
  scriptText :: "string \<Rightarrow> string"
  slackStep :: WorkflowStep
  discordStep :: WorkflowStep

text \<open>
  Modelled from the spec: the yarn and npm rows of the command table, with the texts that
  packageManagerE2E.test.ts and command-extractor.test.ts assert.
\<close>

definition yarnRow :: PmCommands where
  "yarnRow =
     \<lparr>installCmd = ''yarn install'', cacheDirCmd = ''yarn cache dir'',
      lockFile = ''yarn.lock'', globalCliCmd = ''yarn global add eas-cli@latest'',
      typeCheckCmd = ''yarn tsc'', lintCmd = ''yarn lint'',
      formatCheckCmd = ''yarn format:check'', unitTestCmd = ''yarn test'',
      rntlTestCmd = ''yarn test:rntl'', hookTestCmd = ''yarn test:hooks''\<rparr>"

definition npmRow :: PmCommands where
  "npmRow =
     \<lparr>installCmd = ''npm install'', cacheDirCmd = ''npm config get cache'',
      lockFile = ''package-lock.json'', globalCliCmd = ''npm install -g eas-cli@latest'',
      typeCheckCmd = ''npx tsc'', lintCmd = ''npm run lint'',
      formatCheckCmd = ''npm run format:check'', unitTestCmd = ''npm test'',
      rntlTestCmd = ''npm run test:rntl'', hookTestCmd = ''npm run test:hooks''\<rparr>"

text \<open>
  Modelled from the spec: the lookup in the command table; the package manager
  defaults to yarn, the advanced options to all flags off but caching.
\<close>

definition pkgMgrOf :: "FormValues \<Rightarrow> packageManager" where
  "pkgMgrOf c = (case packageManager c of None \<Rightarrow> Yarn | Some p \<Rightarrow> p)"

definition pmCommands :: "Unfixed \<Rightarrow> FormValues \<Rightarrow> PmCommands" where
  "pmCommands u c =
     (case pkgMgrOf c of Yarn \<Rightarrow> yarnRow | Npm \<Rightarrow> npmRow | Pnpm \<Rightarrow> pnpmRow u)"

definition optionsOf :: "FormValues \<Rightarrow> AdvancedOptions" where
  "optionsOf c = (case advancedOptions c of None \<Rightarrow> defaultAdvancedOptions | Some a \<Rightarrow> a)"

text \<open>Modelled from the spec: a step is an action invocation or a shell command.\<close>

definition usesStep :: "string \<Rightarrow> string \<Rightarrow> (string \<times> yaml) list option \<Rightarrow> WorkflowStep" where
  "usesStep label action params =
     \<lparr>step_name = Some label, step_run = None, step_uses = Some action, step_id = None,
      step_if = None, step_with = params, step_env = None\<rparr>"

definition runStep :: "string \<Rightarrow> string \<Rightarrow> WorkflowStep" where
  "runStep label text =
     \<lparr>step_name = Some label, step_run = Some text, step_uses = None, step_id = None,
      step_if = None, step_with = None, step_env = None\<rparr>"

text \<open>A block scalar: its lines, each closed by a line feed.\<close>

definition block :: "string list \<Rightarrow> string" where
  "block ls = concat (map (\<lambda>l. l @ [CHR 0x0A]) ls)"

text \<open>
  Modelled from the spec: the steps that the test job and the build job share. Checkout
  and the Node set-up always come first; \<open>caching\<close> gates the cache-directory query and
  the cache-restore step keyed by the lock file of the package manager.
\<close>

definition setupSteps :: "Unfixed \<Rightarrow> FormValues \<Rightarrow> WorkflowStep list" where
  \<open>setupSteps u c =
     (let pm = packageManagerStr (pkgMgrOf c); row = pmCommands u c in
      [usesStep ''Checkout repository'' ''actions/checkout@v4'' None,
       usesStep ''Setup Node.js'' ''actions/setup-node@v4''
         (Some [(''node-version'', YStr ''20''), (''cache'', YStr pm)])] @
      (if caching (optionsOf c)
       then [(runStep (''Get '' @ pm @ '' cache directory path'')
                (''echo "dir=$('' @ cacheDirCmd row @ '')" >> $GITHUB_OUTPUT''))
               \<lparr>step_id := Some (pm @ ''-cache-dir-path'')\<rparr>,
             usesStep (''Setup '' @ pm @ '' cache'') ''actions/cache@v3''
               (Some [(''path'', YStr (''${{ steps.'' @ pm @ ''-cache-dir-path.outputs.dir }}'')),
                      (''key'', YStr (''${{ runner.os }}-'' @ pm @ ''-${{ hashFiles('' @
                          [CHR 0x27] @ ''**/'' @ lockFile row @ [CHR 0x27] @ '') }}'')),
                      (''restore-keys'', YStr (block [''${{ runner.os }}-'' @ pm @ ''-'']))])]
       else []))\<close>

text \<open>
  Modelled from the spec: the test job. It needs \<open>check-skip\<close>; after the shared steps
  and the dependency install, each selected test kind and each of the three test flags
  adds one step from the command table, in the order of the table.
\<close>

definition testJobSteps :: "Unfixed \<Rightarrow> FormValues \<Rightarrow> WorkflowStep list" where
  "testJobSteps u c =
     (let row = pmCommands u c; opts = optionsOf c in
      setupSteps u c @
      [runStep ''Install dependencies'' (installCmd row)] @
      (if ''typescript'' \<in> set (tests c)
       then [runStep ''Run TypeScript check'' (typeCheckCmd row)] else []) @
      (if ''eslint'' \<in> set (tests c) then [runStep ''Run ESLint'' (lintCmd row)] else []) @
      (if ''prettier'' \<in> set (tests c)
       then [runStep ''Run Prettier check'' (formatCheckCmd row)] else []) @
      (if jestTests opts then [runStep ''Run Jest Tests'' (unitTestCmd row)] else []) @
      (if rntlTests opts
       then [runStep ''Run React Native Testing Library Tests'' (rntlTestCmd row)] else []) @
      (if renderHookTests opts
       then [runStep ''Run renderHook Tests'' (hookTestCmd row)] else []))"

definition testJob :: "Unfixed \<Rightarrow> FormValues \<Rightarrow> WorkflowJob" where
  "testJob u c =
     \<lparr>job_steps = Some (testJobSteps u c), job_needs = Some [''check-skip''],
      job_runs_on = Some ''ubuntu-latest'', job_if = None, job_strategy = None\<rparr>"

text \<open>
  Modelled from the spec: the test job is emitted when the list of test kinds is not
  empty or one of the three test flags is set.
\<close>

definition hasTestJob :: "FormValues \<Rightarrow> bool" where
  "hasTestJob c =
     (tests c \<noteq> [] \<or> jestTests (optionsOf c) \<or> rntlTests (optionsOf c) \<or>
      renderHookTests (optionsOf c))"

text \<open>
  Modelled from the spec: the \<open>check-skip\<close> job, guarded by the skip marker of the
  commit message.
\<close>

definition checkSkipJob :: WorkflowJob where
  \<open>checkSkipJob =
     \<lparr>job_steps = Some [runStep ''Skip CI check'' ''echo "Proceeding with workflow"''],
      job_needs = None, job_runs_on = Some ''ubuntu-latest'',
      job_if = Some (''!contains(github.event.head_commit.message, '' @ [CHR 0x27] @
                     ''[skip ci]'' @ [CHR 0x27] @ '')''),
      job_strategy = None\<rparr>\<close>

text \<open>
  Modelled from the spec: the build-type rules. Each selected build type adds one build
  step with its profile, the memory limit and its artifact path; with iOS support a
  development and a production iOS step are added when the matching build types are
  selected.
\<close>

definition buildGuard :: "string \<Rightarrow> string" where
  "buildGuard buildType =
     ''github.event.inputs.buildType == '' @ [CHR 0x27] @ ''all'' @ [CHR 0x27] @
     '' || github.event.inputs.buildType == '' @ [CHR 0x27] @ buildType @ [CHR 0x27] @
     '' || github.event_name == '' @ [CHR 0x27] @ ''push'' @ [CHR 0x27]"

definition androidBuildStep ::
  "string \<Rightarrow> string list \<Rightarrow> string \<Rightarrow> string \<Rightarrow> string \<Rightarrow> string \<Rightarrow> WorkflowStep" where
  \<open>androidBuildStep label remark buildType profile artifact nodeEnv =
     (runStep label
        (block (remark @
           [''export NODE_OPTIONS="--openssl-legacy-provider --max_old_space_size=4096"'',
            ''eas build --platform android --profile '' @ profile @
            '' --local --non-interactive --output='' @ artifact])))
       \<lparr>step_if := Some (buildGuard buildType),
        step_env := Some [(''NODE_ENV'', nodeEnv)]\<rparr>\<close>

definition buildTypeSteps :: "Unfixed \<Rightarrow> FormValues \<Rightarrow> WorkflowStep list" where
  "buildTypeSteps u c =
     (let sel = (\<lambda>b. b \<in> set (buildTypes c)); ios = iOSSupport (optionsOf c) in
      (if sel ''dev''
       then [androidBuildStep ''Build Development APK''
               [''# Build with increased memory limit''] ''dev'' ''development''
               ''./app-dev.apk'' ''development''] else []) @
      (if sel ''prod-apk''
       then [androidBuildStep ''Build Production APK'' [] ''prod-apk'' ''production-apk''
               ''./app-prod.apk'' ''production''] else []) @
      (if sel ''prod-aab''
       then [androidBuildStep ''Build Production AAB'' [] ''prod-aab'' ''production''
               ''./app-prod.aab'' ''production''] else []) @
      (if ios \<and> sel ''dev''
       then [runStep ''Build iOS Development'' (scriptText u ''Build iOS Development'')]
       else []) @
      (if ios \<and> (sel ''prod-apk'' \<or> sel ''prod-aab'')
       then [runStep ''Build iOS Production'' (scriptText u ''Build iOS Production'')]
       else []))"

text \<open>
  Modelled from the spec: the storage rules of the build job. \<open>github-release\<close> ends
  with a release-creation step; every other storage type sets up the sync tool,
  configures it and uploads each selected artifact.
\<close>

definition storageSteps :: "Unfixed \<Rightarrow> FormValues \<Rightarrow> WorkflowStep list" where
  "storageSteps u c =
     (let sel = (\<lambda>b. b \<in> set (buildTypes c)) in
      if storageType c = Some ''github-release''
      then [usesStep ''Create GitHub Release'' ''softprops/action-gh-release@v1'' None]
      else
        [usesStep ''Setup rclone'' ''AnimMouse/setup-rclone@v1''
           (Some [(''version'', YStr ''latest'')]),
         runStep ''Configure cloud storage'' (scriptText u ''Configure cloud storage'')] @
        (if sel ''dev''
         then [runStep ''Upload Development APK to cloud storage''
                 (scriptText u ''Upload Development APK to cloud storage'')] else []) @
        (if sel ''prod-apk''
         then [runStep ''Upload Production APK to cloud storage''
                 (scriptText u ''Upload Production APK to cloud storage'')] else []) @
        (if sel ''prod-aab''
         then [runStep ''Upload Production AAB to cloud storage''
                 (scriptText u ''Upload Production AAB to cloud storage'')] else []))"

text \<open>
  Modelled from the spec: the advanced-option rules of the build job. Publishing to Expo
  and to the stores adds steps gated on the manual trigger (the App Store step also on
  iOS support); notifications add a Slack step, a Discord step or both, both when no
  channel is chosen.
\<close>

definition manualGuard :: string where
  "manualGuard = ''github.event_name == '' @ [CHR 0x27] @ ''workflow_dispatch'' @ [CHR 0x27]"

definition channelOf :: "AdvancedOptions \<Rightarrow> notificationType" where
  "channelOf opts = (case notificationType opts of None \<Rightarrow> Both | Some n \<Rightarrow> n)"

definition publishSteps :: "Unfixed \<Rightarrow> FormValues \<Rightarrow> WorkflowStep list" where
  "publishSteps u c =
     (let opts = optionsOf c;
          gated = (\<lambda>label. (runStep label (scriptText u label))\<lparr>step_if := Some manualGuard\<rparr>)
      in
      (if publishToExpo opts then [gated ''Publish to Expo''] else []) @
      (if publishToStores opts then [gated ''Submit to Play Store''] else []) @
      (if publishToStores opts \<and> iOSSupport opts then [gated ''Submit to App Store''] else []) @
      (if notifications opts \<and> channelOf opts \<noteq> Discord then [slackStep u] else []) @
      (if notifications opts \<and> channelOf opts \<noteq> Slack then [discordStep u] else []))"

text \<open>
  Modelled from the spec: the build job. It is always emitted, named by the storage
  type; it needs the test job when there is one and \<open>check-skip\<close> otherwise; iOS support
  makes its runner depend on a two-way platform matrix.
\<close>

definition buildJobName :: "FormValues \<Rightarrow> string" where
  "buildJobName c =
     (if storageType c = Some ''github-release'' then ''build-and-release''
      else ''build-and-deploy'')"

definition artifactPaths :: "FormValues \<Rightarrow> string list" where
  "artifactPaths c =
     (let sel = (\<lambda>b. b \<in> set (buildTypes c)) in
      (if sel ''dev'' then [''./app-dev.apk''] else []) @
      (if sel ''prod-apk'' then [''./app-prod.apk''] else []) @
      (if sel ''prod-aab'' then [''./app-prod.aab''] else []))"

definition buildJobSteps :: "Unfixed \<Rightarrow> FormValues \<Rightarrow> WorkflowStep list" where
  \<open>buildJobSteps u c =
     (let row = pmCommands u c in
      setupSteps u c @
      [runStep ''Install dependencies'' (block [installCmd row, globalCliCmd row]),
       usesStep ''Setup EAS build cache'' ''actions/cache@v3''
         (Some [(''path'', YStr ''~/.eas-build-local''),
                (''key'', YStr (''${{ runner.os }}-eas-build-local-${{ hashFiles('' @
                    [CHR 0x27] @ ''**/package.json'' @ [CHR 0x27] @ '') }}'')),
                (''restore-keys'', YStr (block [''${{ runner.os }}-eas-build-local-'']))]),
       runStep ''Verify EAS CLI installation''
         (block [''echo "EAS CLI version:"'', ''eas --version'']),
       runStep ''Fix package.json main entry'' (scriptText u ''Fix package.json main entry''),
       runStep ''Update metro.config.js for SVG support''
         (scriptText u ''Update metro.config.js for SVG support'')] @
      buildTypeSteps u c @
      [usesStep ''Upload build artifacts to GitHub'' ''actions/upload-artifact@v4''
         (Some [(''name'', YStr ''app-builds''), (''path'', YStr (block (artifactPaths c))),
                (''retention-days'', YNum 7)])] @
      storageSteps u c @ publishSteps u c)\<close>

definition buildJob :: "Unfixed \<Rightarrow> FormValues \<Rightarrow> WorkflowJob" where
  "buildJob u c =
     (let ios = iOSSupport (optionsOf c); q = [CHR 0x27] in
      \<lparr>job_steps = Some (buildJobSteps u c),
       job_needs = Some [if hasTestJob c then ''test'' else ''check-skip''],
       job_runs_on =
         Some (if ios
               then ''${{ matrix.platform == '' @ q @ ''ios'' @ q @ '' && '' @ q @
                    ''macos-latest'' @ q @ '' || '' @ q @ ''ubuntu-latest'' @ q @ '' }}''
               else ''ubuntu-latest''),
       job_if =
         Some (''(github.event_name == '' @ q @ ''push'' @ q @ '' && (github.ref == '' @ q @
               ''refs/heads/main'' @ q @ '' || github.ref == '' @ q @ ''refs/heads/master'' @
               q @ '')) || github.event_name == '' @ q @ ''workflow_dispatch'' @ q),
       job_strategy =
         (if ios
          then Some [(''matrix'',
                 YMap [(''platform'', YSeq [YStr ''android'']),
                       (''include'', YSeq [YMap [(''platform'', YStr ''ios''),
                                                  (''runs-on'', YStr ''macos-latest'')]])])]
          else None)\<rparr>)"

text \<open>
  Modelled from the spec: the trigger rules. \<open>push-main\<close> gives a push trigger on the
  main and master branches without the documentation paths, \<open>pull-request\<close> a
  pull-request trigger on the same branches, \<open>manual\<close> a dispatch trigger whose choice
  lists the selected build types and \<open>all\<close>, with a platform choice under iOS support.
  Of a choice only its type and its options are modelled.
\<close>

definition branchFilter :: "(string \<times> yaml) list" where
  "branchFilter = [(''branches'', YSeq [YStr ''main'', YStr ''master''])]"

definition choiceInput :: "string list \<Rightarrow> yaml" where
  "choiceInput options = YMap [(''type'', YStr ''choice''), (''options'', YSeq (map YStr options))]"

definition triggerMap :: "FormValues \<Rightarrow> (string \<times> yaml) list" where
  "triggerMap c =
     (let on = (\<lambda>t. t \<in> set (triggers c));
          kinds = filter (\<lambda>b. b \<in> set (buildTypes c)) [''dev'', ''prod-apk'', ''prod-aab'']
      in
      (if on ''push-main''
       then [(''push'',
               YMap (branchFilter @
                 [(''paths-ignore'', YSeq [YStr ''**.md'', YStr ''LICENSE'', YStr ''docs/**''])]))]
       else []) @
      (if on ''pull-request'' then [(''pull_request'', YMap branchFilter)] else []) @
      (if on ''manual''
       then [(''workflow_dispatch'',
               YMap [(''inputs'',
                 YMap ([(''buildType'', choiceInput (kinds @ [''all'']))] @
                   (if iOSSupport (optionsOf c)
                    then [(''platform'', choiceInput [''android'', ''ios''])] else [])))])]
       else []))"

text \<open>
  Modelled from the spec: the environment block names the secrets of the selected
  storage type and advanced options, and no other.
\<close>

definition secret :: "string \<Rightarrow> string \<times> string" where
  "secret n = (n, ''${{ secrets.'' @ n @ '' }}'')"

definition envBlock :: "FormValues \<Rightarrow> (string \<times> string) list" where
  "envBlock c =
     (let opts = optionsOf c; st = storageType c in
      [secret ''EXPO_TOKEN''] @
      (if iOSSupport opts
       then map secret [''EXPO_APPLE_ID'', ''EXPO_APPLE_PASSWORD'', ''EXPO_TEAM_ID''] else []) @
      (if st = Some ''github-release'' then [secret ''GITHUB_TOKEN'']
       else if st = Some ''zoho-drive''
       then map secret [''RCLONE_CONFIG_ZOHODRIVE_TYPE'', ''RCLONE_CONFIG_ZOHODRIVE_TOKEN'',
                        ''RCLONE_CONFIG_ZOHODRIVE_DRIVE_ID'']
       else if st = Some ''google-drive''
       then map secret [''RCLONE_CONFIG_GDRIVE_TYPE'', ''RCLONE_CONFIG_GDRIVE_TOKEN'',
                        ''RCLONE_CONFIG_GDRIVE_ROOT_FOLDER_ID'']
       else if st = Some ''custom''
       then map secret [''CLOUD_STORAGE_TYPE'', ''CLOUD_STORAGE_TOKEN'', ''CLOUD_STORAGE_ROOT_ID'']
       else []) @
      (if publishToStores opts then [secret ''GOOGLE_PLAY_SERVICE_ACCOUNT''] else []) @
      (if notifications opts \<and> channelOf opts \<noteq> Discord then [secret ''SLACK_WEBHOOK''] else []) @
      (if notifications opts \<and> channelOf opts \<noteq> Slack then [secret ''DISCORD_WEBHOOK''] else []) @
      [(''NODE_OPTIONS'', ''--openssl-legacy-provider'')])"

text \<open>
  Modelled from the spec: the compiled document. The jobs are \<open>check-skip\<close>, the test
  job when it is emitted, and the build job, in this order.
\<close>

definition generateWorkflowYaml :: "Unfixed \<Rightarrow> FormValues \<Rightarrow> WorkflowYaml" where
  "generateWorkflowYaml u c =
     \<lparr>wf_name = Some ''React Native CI/CD'',
      wf_on = Some (triggerMap c),
      wf_env = Some (envBlock c),
      wf_jobs =
        Some ([(''check-skip'', checkSkipJob)] @
              (if hasTestJob c then [(''test'', testJob u c)] else []) @
              [(buildJobName c, buildJob u c)])\<rparr>"

text \<open>
  Modelled from the spec: what the extractor reads back from the text of the compiled
  document.
\<close>

definition parsedWorkflow :: "Unfixed \<Rightarrow> generator" where
  "parsedWorkflow u c = Some (generateWorkflowYaml u c)"

text \<open>The identifiers of the jobs of a document, and the job with a given identifier.\<close>

definition jobIds :: "WorkflowYaml \<Rightarrow> string list" where
  "jobIds d = (case wf_jobs d of None \<Rightarrow> [] | Some jobs \<Rightarrow> map fst jobs)"

definition jobOf :: "WorkflowYaml \<Rightarrow> string \<Rightarrow> WorkflowJob option" where
  "jobOf d i = (case wf_jobs d of None \<Rightarrow> None | Some jobs \<Rightarrow> map_of jobs i)"


section \<open>Auxiliary definitions for the proofs\<close>

text \<open>A small parsed document and results of a run, for concrete instances.\<close>

definition sampleStep :: "string \<Rightarrow> string \<Rightarrow> WorkflowStep" where
  "sampleStep n r =
     \<lparr>step_name = Some n, step_run = Some r, step_uses = None, step_id = None,
      step_if = None, step_with = None, step_env = None\<rparr>"

definition sampleDoc :: WorkflowYaml where
  "sampleDoc =
     \<lparr>wf_name = Some ''CI'', wf_on = None, wf_env = None,
      wf_jobs = Some [(''build-and-release'',
        \<lparr>job_steps = Some [sampleStep ''Install dependencies'' ''npm install'',
                           sampleStep ''Build Development APK'' ''eas build --platform android'',
                           sampleStep ''Say hello'' ''echo hello''],
         job_needs = Some [''check-skip''], job_runs_on = Some ''ubuntu-latest'',
         job_if = None, job_strategy = None\<rparr>)]\<rparr>"

definition sampleResult :: "int \<Rightarrow> bool \<Rightarrow> CommandResult" where
  "sampleResult code skip =
     \<lparr>r_stepName = ''Install dependencies'', r_command = ''npm install'',
      r_category = Install, r_exitCode = code, r_stdout = [], r_stderr = [],
      r_durationMs = 0, r_skipped = skip, r_skipReason = None\<rparr>"

text \<open>The signature of an entry, and the invariant of the loops of the nightly generator.\<close>

definition sigOf :: "generator \<Rightarrow> MatrixEntry \<Rightarrow> string" where
  "sigOf gen e = commandSignature gen (config e)"

definition nightlyShaped :: "MatrixEntry \<Rightarrow> bool" where
  "nightlyShaped e = (\<exists>p t j c. t \<in> set allTestSubsets \<and> e = nightlyEntry p t j c)"

definition nightlyInv :: "generator \<Rightarrow> string set \<times> MatrixEntry list \<Rightarrow> bool" where
  "nightlyInv gen st =
     (fst st = set (map (sigOf gen) (snd st)) \<and> distinct (map (sigOf gen) (snd st)) \<and>
      (\<forall>e \<in> set (snd st). nightlyShaped e))"

text \<open>The name of a nightly entry as a list of tokens joined by dashes.\<close>

definition descTokens :: "string list \<Rightarrow> JestCombo \<Rightarrow> string list" where
  "descTokens t j =
     t @ (if jc_jestTests j then [''jest''] else []) @
     (if jc_rntlTests j then [''rntl''] else []) @
     (if jc_renderHookTests j then [''hooks''] else [])"

definition nameTokens :: "packageManager \<Rightarrow> string list \<Rightarrow> JestCombo \<Rightarrow> bool \<Rightarrow> string list" where
  "nameTokens p t j c =
     packageManagerStr p #
     (if descTokens t j = [] then [''no'', ''tests''] else descTokens t j) @
     (if c then [] else [''nocache''])"

definition testKind :: "string \<Rightarrow> bool" where
  "testKind x = (x = ''typescript'' \<or> x = ''eslint'' \<or> x = ''prettier'')"

text \<open>Sample texts for the compiler, and the configurations of the example scenarios.\<close>

definition sampleUnfixed :: Unfixed where
  "sampleUnfixed =
     \<lparr>pnpmRow =
        \<lparr>installCmd = ''pnpm install'', cacheDirCmd = ''pnpm store path'',
         lockFile = ''pnpm-lock.yaml'', globalCliCmd = ''pnpm add -g eas-cli@latest'',
         typeCheckCmd = ''pnpm tsc'', lintCmd = ''pnpm lint'',
         formatCheckCmd = ''pnpm format:check'', unitTestCmd = ''pnpm test'',
         rntlTestCmd = ''pnpm test:rntl'', hookTestCmd = ''pnpm test:hooks''\<rparr>,
      scriptText = (\<lambda>label. ''true''),
      slackStep = usesStep ''Notify Slack'' ''rtCamp/action-slack-notify'' None,
      discordStep = usesStep ''Notify Discord'' ''Ilshidur/action-discord@0.3.2'' None\<rparr>"

definition npmNoTests :: FormValues where
  "npmNoTests = baseConfig (noOverrides\<lparr>o_packageManager := Some Npm, o_tests := Some []\<rparr>)"

definition yarnTypescript :: FormValues where
  "yarnTypescript = baseConfig (noOverrides\<lparr>o_tests := Some [''typescript'']\<rparr>)"

text \<open>
  The second example scenario: yarn, the three test kinds, the three test flags and
  caching, with the other fields left open.
\<close>

definition allTestsConfig ::
  "string option \<Rightarrow> string list \<Rightarrow> string list \<Rightarrow> bool \<Rightarrow> bool \<Rightarrow> bool \<Rightarrow> bool \<Rightarrow>
   notificationType option \<Rightarrow> FormValues" where
  "allTestsConfig st bt tr ios pe ps nf nt =
     \<lparr>packageManager = Some Yarn, storageType = st, buildTypes = bt,
      tests = [''typescript'', ''eslint'', ''prettier''], triggers = tr,
      advancedOptions =
        Some \<lparr>iOSSupport = ios, publishToExpo = pe, publishToStores = ps, jestTests = True,
              rntlTests = True, renderHookTests = True, caching = True, notifications = nf,
              notificationType = nt\<rparr>\<rparr>"


section \<open>Lemmas: loops, joined strings, names\<close>

lemma buildSteps_category:
  "includeBuildCommands \<noteq> Some True \<Longrightarrow>
   list_all (\<lambda>cmd. category cmd \<noteq> Build \<and> category cmd \<noteq> Other)
     (buildSteps includeBuildCommands steps)"
  by (induction steps) (simp_all add: Let_def split: option.split)

lemma sampleDoc_default:
  "map category (extractBuildJobCommands (\<lambda>_. Some sampleDoc) (baseConfig noOverrides) None) =
     [Install]"
  by code_simp

lemma sampleDoc_requested:
  "map category
     (extractBuildJobCommands (\<lambda>_. Some sampleDoc) (baseConfig noOverrides) (Some True)) =
     [Install, Build, Other]"
  by code_simp

lemma fold_invariant:
  "P s \<Longrightarrow> (\<And>x s. x \<in> set xs \<Longrightarrow> P s \<Longrightarrow> P (f x s)) \<Longrightarrow> P (fold f xs s)"
  by (induction xs arbitrary: s) simp_all

lemma nightlyBody_inv:
  assumes inv: "nightlyInv gen st" and t: "t \<in> set allTestSubsets"
  shows "nightlyInv gen (nightlyBody gen p t j c st)"
proof (cases "commandSignature gen (nightlyConfig p t j c) \<in> fst st")
  case True
  then have "nightlyBody gen p t j c st = st"
    by (simp add: nightlyBody_def)
  with inv show ?thesis by simp
next
  case False
  let ?e = "nightlyEntry p t j c"
  have s: "sigOf gen ?e = commandSignature gen (nightlyConfig p t j c)"
    by (simp add: sigOf_def nightlyEntry_def)
  have b: "nightlyBody gen p t j c st = (insert (sigOf gen ?e) (fst st), snd st @ [?e])"
    using False by (simp add: nightlyBody_def s)
  have sh: "nightlyShaped ?e"
    unfolding nightlyShaped_def using t by blast
  have new: "sigOf gen ?e \<notin> set (map (sigOf gen) (snd st))"
    using False inv by (simp add: nightlyInv_def s)
  show ?thesis
    unfolding b nightlyInv_def using inv new sh
    by (simp add: nightlyInv_def)
qed

lemma nightly_loops_inv:
  assumes "nightlyInv gen st"
  shows "nightlyInv gen
     (fold (\<lambda>pkgMgr.
        fold (\<lambda>tests'.
          fold (\<lambda>jestCombo.
            fold (\<lambda>caching'. nightlyBody gen pkgMgr tests' jestCombo caching')
              (cachingOptions tests' jestCombo))
            allJestCombinations)
          allTestSubsets)
        pms st)"
proof (rule fold_invariant [where P = "nightlyInv gen", OF assms])
  fix p s assume "nightlyInv gen s"
  then show "nightlyInv gen (fold (\<lambda>tests'.
          fold (\<lambda>jestCombo.
            fold (\<lambda>caching'. nightlyBody gen p tests' jestCombo caching')
              (cachingOptions tests' jestCombo))
            allJestCombinations) allTestSubsets s)"
  proof (rule fold_invariant [where P = "nightlyInv gen"])
    fix t s assume t: "t \<in> set allTestSubsets" and inv: "nightlyInv gen s"
    from inv show "nightlyInv gen (fold (\<lambda>jestCombo.
            fold (\<lambda>caching'. nightlyBody gen p t jestCombo caching')
              (cachingOptions t jestCombo)) allJestCombinations s)"
    proof (rule fold_invariant [where P = "nightlyInv gen"])
      fix j s assume "nightlyInv gen s"
      then show "nightlyInv gen (fold (\<lambda>caching'. nightlyBody gen p t j caching')
              (cachingOptions t j) s)"
        by (rule fold_invariant [where P = "nightlyInv gen"]) (rule nightlyBody_inv [OF _ t])
    qed
  qed
qed

lemma generateNightlyMatrix_inv:
  "distinct (map (sigOf gen) (generateNightlyMatrix gen)) \<and>
   (\<forall>e \<in> set (generateNightlyMatrix gen). nightlyShaped e)"
proof -
  have "nightlyInv gen ({}, [])" by (simp add: nightlyInv_def)
  then have "nightlyInv gen (fold (\<lambda>pkgMgr.
        fold (\<lambda>tests'.
          fold (\<lambda>jestCombo.
            fold (\<lambda>caching'. nightlyBody gen pkgMgr tests' jestCombo caching')
              (cachingOptions tests' jestCombo))
            allJestCombinations)
          allTestSubsets)
        [Yarn, Npm] ({}, []))"
    by (rule nightly_loops_inv)
  then show ?thesis
    by (simp add: nightlyInv_def generateNightlyMatrix_def)
qed

lemma str_join_cons: "ys \<noteq> [] \<Longrightarrow> str_join sep (x # ys) = x @ sep @ str_join sep ys"
  by (cases ys) simp_all

lemma str_join_snoc: "xs \<noteq> [] \<Longrightarrow> str_join sep (xs @ [y]) = str_join sep xs @ sep @ y"
proof (induction xs)
  case Nil
  then show ?case by simp
next
  case (Cons x xs)
  show ?case
  proof (cases "xs = []")
    case True
    then show ?thesis by simp
  next
    case False
    with Cons.IH show ?thesis by (simp add: str_join_cons)
  qed
qed

lemma str_join_nonempty: "x \<noteq> [] \<Longrightarrow> str_join sep (x # xs) \<noteq> []"
  by (cases xs) simp_all

lemma takeWhile_token:
  assumes "d \<notin> set x" and "r = [] \<or> hd r = d"
  shows "takeWhile (\<lambda>c. c \<noteq> d) (x @ r) = x"
proof -
  have "takeWhile (\<lambda>c. c \<noteq> d) r = []"
    using assms(2) by (cases r) auto
  moreover have "takeWhile (\<lambda>c. c \<noteq> d) (x @ r) = x @ takeWhile (\<lambda>c. c \<noteq> d) r"
    using assms(1) by (intro takeWhile_append2) auto
  ultimately show ?thesis by simp
qed

lemma token_split:
  assumes "d \<notin> set x" "d \<notin> set y" "x @ r = y @ r'" "r = [] \<or> hd r = d" "r' = [] \<or> hd r' = d"
  shows "x = y \<and> r = r'"
proof -
  have "x = takeWhile (\<lambda>c. c \<noteq> d) (x @ r)"
    using assms(1,4) by (simp add: takeWhile_token)
  also have "\<dots> = y"
    unfolding assms(3) using assms(2,5) by (simp add: takeWhile_token)
  finally have "x = y" .
  with assms(3) show ?thesis by simp
qed

lemma str_join_inj:
  assumes "\<forall>x \<in> set xs. d \<notin> set x" "\<forall>y \<in> set ys. d \<notin> set y" "xs \<noteq> []" "ys \<noteq> []"
    and "str_join [d] xs = str_join [d] ys"
  shows "xs = ys"
  using assms
proof (induction xs arbitrary: ys)
  case Nil
  then show ?case by simp
next
  case (Cons x xs)
  then obtain y ys' where ys: "ys = y # ys'" by (cases ys) auto
  let ?R = "\<lambda>zs. if zs = [] then [] else [d] @ str_join [d] zs"
  have jx: "str_join [d] (x # xs) = x @ ?R xs" by (simp add: str_join_cons)
  have jy: "str_join [d] (y # ys') = y @ ?R ys'" by (simp add: str_join_cons)
  have "x = y \<and> ?R xs = ?R ys'"
  proof (rule token_split [where d = d])
    show "d \<notin> set x" using Cons.prems(1) by simp
    show "d \<notin> set y" using Cons.prems(2) ys by simp
    show "x @ ?R xs = y @ ?R ys'" using Cons.prems(5) ys jx jy by simp
    show "?R xs = [] \<or> hd (?R xs) = d" by simp
    show "?R ys' = [] \<or> hd (?R ys') = d" by simp
  qed
  then have xy: "x = y" and R: "?R xs = ?R ys'" by simp_all
  show ?case
  proof (cases "xs = []")
    case True
    with R have "ys' = []" by (simp split: if_splits)
    with True xy ys show ?thesis by simp
  next
    case False
    with R have ne: "ys' \<noteq> []" and j: "str_join [d] xs = str_join [d] ys'"
      by (simp_all split: if_splits)
    have "xs = ys'"
      using Cons.IH [of ys'] Cons.prems(1,2) ys False ne j by simp
    with xy ys show ?thesis by simp
  qed
qed

lemma allTestSubsets_eval:
  "allTestSubsets =
     [[], [''typescript''], [''eslint''], [''typescript'', ''eslint''], [''prettier''],
      [''typescript'', ''prettier''], [''eslint'', ''prettier''],
      [''typescript'', ''eslint'', ''prettier'']]"
  by (simp add: allTestSubsets_def)

lemma allTestSubsets_kinds: "t \<in> set allTestSubsets \<Longrightarrow> \<forall>x \<in> set t. testKind x"
  unfolding allTestSubsets_eval by (auto simp add: testKind_def)

lemma testKind_facts:
  "\<not> testKind ''jest''" "\<not> testKind ''rntl''" "\<not> testKind ''hooks''" "\<not> testKind ''no''"
  "\<not> testKind ''tests''" "\<not> testKind ''nocache''" "\<not> testKind []"
  by (simp_all add: testKind_def)

lemma testKind_dash: "testKind x \<Longrightarrow> CHR ''-'' \<notin> set x"
  by (auto simp add: testKind_def)

lemma nameTokens_dash:
  assumes "t \<in> set allTestSubsets"
  shows "\<forall>x \<in> set (nameTokens p t j c). CHR ''-'' \<notin> set x"
proof -
  have "\<forall>x \<in> set t. CHR ''-'' \<notin> set x"
    using allTestSubsets_kinds [OF assms] testKind_dash by blast
  moreover have "CHR ''-'' \<notin> set (packageManagerStr p)"
    by (cases p) simp_all
  ultimately show ?thesis
    by (simp add: nameTokens_def descTokens_def)
qed

lemma descTokens_join_empty:
  assumes "t \<in> set allTestSubsets"
  shows "str_join ''-'' (descTokens t j) = [] \<longleftrightarrow> descTokens t j = []"
proof (cases "descTokens t j")
  case Nil
  then show ?thesis by simp
next
  case (Cons x xs)
  have "\<forall>y \<in> set (descTokens t j). y \<noteq> []"
    using allTestSubsets_kinds [OF assms] testKind_facts(7)
    by (auto simp add: descTokens_def)
  with Cons have "x \<noteq> []" by simp
  with Cons show ?thesis by (simp add: str_join_nonempty)
qed

lemma nightlyName_tokens:
  assumes "t \<in> set allTestSubsets"
  shows "nightlyName p t j c = str_join ''-'' (nameTokens p t j c)"
proof -
  let ?m = "if descTokens t j = [] then [''no'', ''tests''] else descTokens t j"
  have d: "testDesc t j = str_join ''-'' ?m"
    using descTokens_join_empty [OF assms, of j]
    by (simp add: testDesc_def orElse_def descTokens_def [symmetric])
  have ne: "?m \<noteq> []" by simp
  have s: "str_join ''-'' (?m @ (if c then [] else [''nocache''])) =
           str_join ''-'' ?m @ (if c then [] else ''-nocache'')"
    using ne by (simp add: str_join_snoc del: str_join.simps)
  have "str_join ''-'' (nameTokens p t j c) =
        packageManagerStr p @ ''-'' @ str_join ''-'' (?m @ (if c then [] else [''nocache'']))"
    unfolding nameTokens_def using ne by (intro str_join_cons) simp
  then show ?thesis
    by (simp only: s d nightlyName_def)
qed

lemma packageManagerStr_inj: "packageManagerStr p = packageManagerStr q \<Longrightarrow> p = q"
  by (cases p; cases q) simp_all

lemma nameTokens_inj:
  assumes t: "t \<in> set allTestSubsets" and t': "t' \<in> set allTestSubsets"
    and eq: "nameTokens p t j c = nameTokens p' t' j' c'"
  shows "p = p' \<and> t = t' \<and> j = j' \<and> c = c'"
proof -
  let ?tl = "\<lambda>t j c. (if descTokens t j = [] then [''no'', ''tests''] else descTokens t j) @
     (if c then [] else [''nocache''])"
  have k: "\<forall>x \<in> set t. testKind x" and k': "\<forall>x \<in> set t'. testKind x"
    using t t' by (simp_all add: allTestSubsets_kinds)
  have no: "\<And>s. \<not> testKind s \<Longrightarrow> s \<notin> set t \<and> s \<notin> set t'"
    using k k' by blast
  have hd: "packageManagerStr p = packageManagerStr p'" and tl: "?tl t j c = ?tl t' j' c'"
    using eq by (simp_all add: nameTokens_def)
  have p: "p = p'" using hd by (rule packageManagerStr_inj)
  have f: "\<And>t. \<forall>x \<in> set t. testKind x \<Longrightarrow> filter testKind (?tl t j c) = t"
          "\<And>t. \<forall>x \<in> set t. testKind x \<Longrightarrow> filter testKind (?tl t j' c') = t"
    by (auto simp add: descTokens_def testKind_facts filter_id_conv)
  have "filter testKind (?tl t j c) = filter testKind (?tl t' j' c')"
    using tl by simp
  then have tt: "t = t'" using f(1) [OF k] f(2) [OF k'] by simp
  have m: "\<And>s j c. \<not> testKind s \<Longrightarrow> s \<in> set (?tl t j c) \<longleftrightarrow>
      s \<in> set ((if jc_jestTests j then [''jest''] else []) @
     (if jc_rntlTests j then [''rntl''] else []) @
     (if jc_renderHookTests j then [''hooks''] else [])) \<or> (descTokens t j = [] \<and> (s = ''no'' \<or> s = ''tests'')) \<or> (\<not> c \<and> s = ''nocache'')"
    using no by (auto simp add: descTokens_def)
  have tl2: "?tl t j c = ?tl t j' c'" using tl tt by simp
  have "(''nocache'' \<in> set (?tl t j c)) = (''nocache'' \<in> set (?tl t j' c'))"
    using tl2 by simp
  then have c: "c = c'"
    by (simp only: m [OF testKind_facts(6)]) (simp split: if_splits)
  have "(''jest'' \<in> set (?tl t j c)) = (''jest'' \<in> set (?tl t j' c'))"
    using tl2 by simp
  then have j1: "jc_jestTests j = jc_jestTests j'"
    by (simp only: m [OF testKind_facts(1)]) (simp split: if_splits)
  have "(''rntl'' \<in> set (?tl t j c)) = (''rntl'' \<in> set (?tl t j' c'))"
    using tl2 by simp
  then have j2: "jc_rntlTests j = jc_rntlTests j'"
    by (simp only: m [OF testKind_facts(2)]) (simp split: if_splits)
  have "(''hooks'' \<in> set (?tl t j c)) = (''hooks'' \<in> set (?tl t j' c'))"
    using tl2 by simp
  then have j3: "jc_renderHookTests j = jc_renderHookTests j'"
    by (simp only: m [OF testKind_facts(3)]) (simp split: if_splits)
  have "j = j'" using j1 j2 j3 by simp
  with p tt c show ?thesis by simp
qed

lemma nightlyName_inj:
  assumes "t \<in> set allTestSubsets" "t' \<in> set allTestSubsets"
    and "nightlyName p t j c = nightlyName p' t' j' c'"
  shows "p = p' \<and> t = t' \<and> j = j' \<and> c = c'"
proof -
  have "str_join [CHR ''-''] (nameTokens p t j c) = str_join [CHR ''-''] (nameTokens p' t' j' c')"
    using assms by (simp add: nightlyName_tokens)
  then have "nameTokens p t j c = nameTokens p' t' j' c'"
    using nameTokens_dash [OF assms(1)] nameTokens_dash [OF assms(2)]
    by (intro str_join_inj [where d = "CHR ''-''"]) (simp_all add: nameTokens_def)
  then show ?thesis
    using assms(1,2) by (rule nameTokens_inj [rotated 2])
qed

lemma distinct_map_transfer:
  assumes "distinct (map f xs)" and "\<And>x y. x \<in> set xs \<Longrightarrow> y \<in> set xs \<Longrightarrow> g x = g y \<Longrightarrow> f x = f y"
  shows "distinct (map g xs)"
proof -
  have "distinct xs" and inj: "inj_on f (set xs)"
    using assms(1) by (simp_all add: distinct_map)
  have "inj_on g (set xs)"
  proof (rule inj_onI)
    fix x y assume "x \<in> set xs" "y \<in> set xs" "g x = g y"
    then have "f x = f y" by (rule assms(2))
    with inj \<open>x \<in> set xs\<close> \<open>y \<in> set xs\<close> show "x = y" by (simp add: inj_on_def)
  qed
  with \<open>distinct xs\<close> show ?thesis by (simp add: distinct_map)
qed

lemma generatePrMatrix_fixture:
  "list_all (\<lambda>e. fixture e = (if packageManager (config e) = Some Npm then NpmApp else YarnApp))
     generatePrMatrix"
  by (simp add: generatePrMatrix_def prEntry_def baseConfig_def noOverrides_def)

lemma generateEasMatrix_fixture:
  "list_all (\<lambda>e. fixture e = (if packageManager (config e) = Some Npm then NpmApp else YarnApp))
     generateEasMatrix"
  by (simp add: generateEasMatrix_def easEntry_def baseConfig_def noOverrides_def
      fixtureForPkgMgr_def)

lemma nightlyShaped_fixture:
  "nightlyShaped e \<Longrightarrow>
   fixture e = (if packageManager (config e) = Some Npm then NpmApp else YarnApp)"
  by (auto simp add: nightlyShaped_def nightlyEntry_def nightlyConfig_def baseConfig_def
      noOverrides_def fixtureForPkgMgr_def)

lemma nightly_none: "map name (generateNightlyMatrix (\<lambda>_. None)) = [''yarn-no-tests'']"
  by code_simp


section \<open>Lemmas: the compiled document\<close>

lemma jobIds_generate:
  "jobIds (generateWorkflowYaml u c) =
     ''check-skip'' # (if hasTestJob c then [''test''] else []) @ [buildJobName c]"
  by (simp add: jobIds_def generateWorkflowYaml_def)

lemma buildJobName_not_test:
  "buildJobName c \<noteq> ''test''" "buildJobName c \<noteq> ''check-skip''"
  "''test'' \<noteq> buildJobName c" "''check-skip'' \<noteq> buildJobName c"
  by (simp_all add: buildJobName_def)

lemma jobOf_test:
  "jobOf (generateWorkflowYaml u c) ''test'' = (if hasTestJob c then Some (testJob u c) else None)"
  by (simp add: jobOf_def generateWorkflowYaml_def buildJobName_not_test)

lemma jobOf_build:
  "jobOf (generateWorkflowYaml u c) (buildJobName c) = Some (buildJob u c)"
  by (simp add: jobOf_def generateWorkflowYaml_def buildJobName_not_test)

lemma testJob_storage: "testJob u (c\<lparr>storageType := s\<rparr>) = testJob u c"
  by (simp add: testJob_def testJobSteps_def setupSteps_def pmCommands_def pkgMgrOf_def
      optionsOf_def)

lemma hasTestJob_storage: "hasTestJob (c\<lparr>storageType := s\<rparr>) = hasTestJob c"
  by (simp add: hasTestJob_def optionsOf_def)

lemma extractTest_generate:
  "extractTestJobCommands (parsedWorkflow u) c =
     (if hasTestJob c then testSteps (testJobSteps u c) else [])"
  using jobOf_test [of u c]
  by (simp add: extractTestJobCommands_def parsedWorkflow_def jobOf_def testJob_def
      generateWorkflowYaml_def)

lemma categorize_yarn:
  \<open>categorizeCommand ''Get yarn cache directory path''
     ''echo "dir=$(yarn cache dir)" >> $GITHUB_OUTPUT'' = CacheDir\<close>
  "categorizeCommand ''Install dependencies'' ''yarn install'' = Install"
  "categorizeCommand ''Run TypeScript check'' ''yarn tsc'' = Typecheck"
  "categorizeCommand ''Run ESLint'' ''yarn lint'' = Lint"
  "categorizeCommand ''Run Prettier check'' ''yarn format:check'' = Format"
  "categorizeCommand ''Run Jest Tests'' ''yarn test'' = Jest"
  "categorizeCommand ''Run React Native Testing Library Tests'' ''yarn test:rntl'' = Rntl"
  "categorizeCommand ''Run renderHook Tests'' ''yarn test:hooks'' = Hooks"
  by code_simp+

lemma hasGHA_yarn:
  \<open>\<not> hasGHAExpressions ''echo "dir=$(yarn cache dir)" >> $GITHUB_OUTPUT''\<close>
  "\<not> hasGHAExpressions ''yarn install''"
  "\<not> hasGHAExpressions ''yarn tsc''"
  "\<not> hasGHAExpressions ''yarn lint''"
  "\<not> hasGHAExpressions ''yarn format:check''"
  "\<not> hasGHAExpressions ''yarn test''"
  "\<not> hasGHAExpressions ''yarn test:rntl''"
  "\<not> hasGHAExpressions ''yarn test:hooks''"
  by code_simp+

lemma allTests_steps:
  \<open>testSteps (testJobSteps u (allTestsConfig st bt tr ios pe ps nf nt)) =
     [mkCommand ((runStep ''Get yarn cache directory path''
                  ''echo "dir=$(yarn cache dir)" >> $GITHUB_OUTPUT'')
                  \<lparr>step_id := Some ''yarn-cache-dir-path''\<rparr>)
        ''echo "dir=$(yarn cache dir)" >> $GITHUB_OUTPUT'',
      mkCommand (runStep ''Install dependencies'' ''yarn install'') ''yarn install'',
      mkCommand (runStep ''Run TypeScript check'' ''yarn tsc'') ''yarn tsc'',
      mkCommand (runStep ''Run ESLint'' ''yarn lint'') ''yarn lint'',
      mkCommand (runStep ''Run Prettier check'' ''yarn format:check'') ''yarn format:check'',
      mkCommand (runStep ''Run Jest Tests'' ''yarn test'') ''yarn test'',
      mkCommand (runStep ''Run React Native Testing Library Tests'' ''yarn test:rntl'')
        ''yarn test:rntl'',
      mkCommand (runStep ''Run renderHook Tests'' ''yarn test:hooks'') ''yarn test:hooks'']\<close>
  by (simp add: testJobSteps_def setupSteps_def allTestsConfig_def pmCommands_def pkgMgrOf_def
      optionsOf_def yarnRow_def runStep_def usesStep_def)

lemma sample_configs:
  "tests npmNoTests = []" "tests yarnTypescript = [''typescript'']"
  "storageType npmNoTests = Some ''github-release''"
  "storageType yarnTypescript = Some ''github-release''"
  "optionsOf npmNoTests = defaultAdvancedOptions"
  "optionsOf yarnTypescript = defaultAdvancedOptions"
  by (simp_all add: npmNoTests_def yarnTypescript_def baseConfig_def noOverrides_def
      optionsOf_def)

lemma yarnTypescript_signature:
  \<open>commandSignature (parsedWorkflow sampleUnfixed) yarnTypescript =
     ''cache-dir:echo "dir=$(yarn cache dir)" >> $GITHUB_OUTPUT|install:yarn install|typecheck:yarn tsc''\<close>
  by code_simp


section \<open>The compiled document\<close>

text \<open>
  C1. The compiled document has a job \<open>test\<close> exactly when the list of test kinds of the
  configuration is not empty or one of the flags jestTests, rntlTests, renderHookTests
  is set (an absent record of advanced options counts as all three unset). The test job
  needs \<open>check-skip\<close>; the build job needs \<open>test\<close> when the test job exists and
  \<open>check-skip\<close> when it does not.
\<close>

theorem test_job_iff:
  "(''test'' \<in> set (jobIds (generateWorkflowYaml u c)) \<longleftrightarrow>
      tests c \<noteq> [] \<or> jestTests (optionsOf c) \<or> rntlTests (optionsOf c) \<or>
      renderHookTests (optionsOf c)) \<and>
   (\<forall>job. jobOf (generateWorkflowYaml u c) ''test'' = Some job \<longrightarrow>
      job_needs job = Some [''check-skip'']) \<and>
   (\<exists>job. jobOf (generateWorkflowYaml u c)
             (if storageType c = Some ''github-release'' then ''build-and-release''
              else ''build-and-deploy'') = Some job \<and>
          job_needs job =
            Some [if ''test'' \<in> set (jobIds (generateWorkflowYaml u c)) then ''test''
                  else ''check-skip''])"
proof -
  have ids: "''test'' \<in> set (jobIds (generateWorkflowYaml u c)) \<longleftrightarrow> hasTestJob c"
    by (simp add: jobIds_generate buildJobName_not_test)
  have b: "jobOf (generateWorkflowYaml u c)
             (if storageType c = Some ''github-release'' then ''build-and-release''
              else ''build-and-deploy'') = Some (buildJob u c)"
    using jobOf_build [of u c] by (simp only: buildJobName_def)
  have n: "job_needs (buildJob u c) = Some [if hasTestJob c then ''test'' else ''check-skip'']"
    by (simp add: buildJob_def Let_def)
  have t: "job_needs (testJob u c) = Some [''check-skip'']"
    by (simp add: testJob_def)
  show ?thesis
    unfolding ids using b n t
    by (simp add: jobOf_test hasTestJob_def)
qed

theorem test_job_iff_witness:
  "''test'' \<notin> set (jobIds (generateWorkflowYaml sampleUnfixed npmNoTests)) \<and>
   (\<exists>job. jobOf (generateWorkflowYaml sampleUnfixed npmNoTests) ''build-and-release'' = Some job \<and>
      job_needs job = Some [''check-skip'']) \<and>
   ''test'' \<in> set (jobIds (generateWorkflowYaml sampleUnfixed yarnTypescript)) \<and>
   (\<exists>job. jobOf (generateWorkflowYaml sampleUnfixed yarnTypescript) ''build-and-release'' = Some job \<and>
      job_needs job = Some [''test''])"
proof -
  let ?a = "generateWorkflowYaml sampleUnfixed npmNoTests"
  let ?b = "generateWorkflowYaml sampleUnfixed yarnTypescript"
  have ia: "''test'' \<in> set (jobIds ?a) \<longleftrightarrow>
      tests npmNoTests \<noteq> [] \<or> jestTests (optionsOf npmNoTests) \<or>
      rntlTests (optionsOf npmNoTests) \<or> renderHookTests (optionsOf npmNoTests)"
    and ea: "\<exists>job. jobOf ?a (if storageType npmNoTests = Some ''github-release''
                 then ''build-and-release'' else ''build-and-deploy'') = Some job \<and>
          job_needs job = Some [if ''test'' \<in> set (jobIds ?a) then ''test'' else ''check-skip'']"
    using test_job_iff [of sampleUnfixed npmNoTests] by blast+
  have ib: "''test'' \<in> set (jobIds ?b) \<longleftrightarrow>
      tests yarnTypescript \<noteq> [] \<or> jestTests (optionsOf yarnTypescript) \<or>
      rntlTests (optionsOf yarnTypescript) \<or> renderHookTests (optionsOf yarnTypescript)"
    and eb: "\<exists>job. jobOf ?b (if storageType yarnTypescript = Some ''github-release''
                 then ''build-and-release'' else ''build-and-deploy'') = Some job \<and>
          job_needs job = Some [if ''test'' \<in> set (jobIds ?b) then ''test'' else ''check-skip'']"
    using test_job_iff [of sampleUnfixed yarnTypescript] by blast+
  have a: "''test'' \<notin> set (jobIds ?a)"
    using ia by (simp add: sample_configs defaultAdvancedOptions_def)
  have b: "''test'' \<in> set (jobIds ?b)"
    using ib by (simp add: sample_configs)
  show ?thesis
    using a b ea eb by (simp add: sample_configs)
qed

text \<open>
  C2. The compiled document has exactly one of the job identifiers \<open>build-and-release\<close>
  and \<open>build-and-deploy\<close>: the first when the storage type is \<open>github-release\<close>, the
  second for every other storage type.
\<close>

theorem build_job_exclusive:
  "(storageType c = Some ''github-release'' \<longrightarrow>
      ''build-and-release'' \<in> set (jobIds (generateWorkflowYaml u c)) \<and>
      ''build-and-deploy'' \<notin> set (jobIds (generateWorkflowYaml u c))) \<and>
   (storageType c \<noteq> Some ''github-release'' \<longrightarrow>
      ''build-and-deploy'' \<in> set (jobIds (generateWorkflowYaml u c)) \<and>
      ''build-and-release'' \<notin> set (jobIds (generateWorkflowYaml u c))) \<and>
   length (filter (\<lambda>i. i = ''build-and-release'' \<or> i = ''build-and-deploy'')
     (jobIds (generateWorkflowYaml u c))) = 1"
  by (simp add: jobIds_generate buildJobName_def)

theorem build_job_exclusive_witness:
  "jobIds (generateWorkflowYaml sampleUnfixed npmNoTests) = [''check-skip'', ''build-and-release''] \<and>
   jobIds (generateWorkflowYaml sampleUnfixed (yarnTypescript\<lparr>storageType := Some ''zoho-drive''\<rparr>)) =
     [''check-skip'', ''test'', ''build-and-deploy'']"
proof -
  have a: "''build-and-release'' \<in> set (jobIds (generateWorkflowYaml sampleUnfixed npmNoTests))"
    using build_job_exclusive [of npmNoTests sampleUnfixed]
    by (simp add: npmNoTests_def baseConfig_def noOverrides_def)
  have b: "''build-and-deploy'' \<in> set (jobIds (generateWorkflowYaml sampleUnfixed
      (yarnTypescript\<lparr>storageType := Some ''zoho-drive''\<rparr>)))"
    using build_job_exclusive [of "yarnTypescript\<lparr>storageType := Some ''zoho-drive''\<rparr>" sampleUnfixed]
    by simp
  show ?thesis
    using a b
    by (simp add: jobIds_generate hasTestJob_def buildJobName_def npmNoTests_def
        yarnTypescript_def baseConfig_def noOverrides_def optionsOf_def
        defaultAdvancedOptions_def)
qed

text \<open>
  C3. Two configurations that differ only in the storage type have the same command
  signature.
\<close>

theorem commandSignature_storage:
  "commandSignature (parsedWorkflow u) (c\<lparr>storageType := s\<rparr>) =
   commandSignature (parsedWorkflow u) c"
proof -
  have "testJobSteps u (c\<lparr>storageType := s\<rparr>) = testJobSteps u c"
    using testJob_storage [where u = u and c = c and s = s] by (simp add: testJob_def)
  then have "extractTestJobCommands (parsedWorkflow u) (c\<lparr>storageType := s\<rparr>) =
        extractTestJobCommands (parsedWorkflow u) c"
    by (simp add: extractTest_generate hasTestJob_storage)
  then show ?thesis by (simp add: commandSignature_def)
qed

theorem commandSignature_storage_witness:
  \<open>commandSignature (parsedWorkflow sampleUnfixed)
     (yarnTypescript\<lparr>storageType := Some ''google-drive''\<rparr>) =
   commandSignature (parsedWorkflow sampleUnfixed) yarnTypescript \<and>
   commandSignature (parsedWorkflow sampleUnfixed) yarnTypescript =
     ''cache-dir:echo "dir=$(yarn cache dir)" >> $GITHUB_OUTPUT|install:yarn install|typecheck:yarn tsc''\<close>
  using commandSignature_storage
      [where u = sampleUnfixed and c = yarnTypescript and s = "Some ''google-drive''"]
    yarnTypescript_signature
  by simp

text \<open>
  C6. For yarn with the test kinds typescript, eslint and prettier, the flags jestTests,
  rntlTests and renderHookTests and caching, \<open>extractTestJobCommands\<close> returns exactly
  eight commands, of the categories cache-dir, install, typecheck, lint, format, jest,
  rntl and hooks, one each, whatever the other fields of the configuration are.
\<close>

theorem all_tests_eight_commands:
  \<open>length (extractTestJobCommands (parsedWorkflow u)
       (allTestsConfig st bt tr ios pe ps nf nt)) = 8 \<and>
   map category (extractTestJobCommands (parsedWorkflow u)
       (allTestsConfig st bt tr ios pe ps nf nt)) =
     [CacheDir, Install, Typecheck, Lint, Format, Jest, Rntl, Hooks] \<and>
   map command (extractTestJobCommands (parsedWorkflow u)
       (allTestsConfig st bt tr ios pe ps nf nt)) =
     [''echo "dir=$(yarn cache dir)" >> $GITHUB_OUTPUT'', ''yarn install'', ''yarn tsc'',
      ''yarn lint'', ''yarn format:check'', ''yarn test'', ''yarn test:rntl'',
      ''yarn test:hooks''] \<and>
   list_all (\<lambda>cmd. \<not> hasGHA cmd) (extractTestJobCommands (parsedWorkflow u)
       (allTestsConfig st bt tr ios pe ps nf nt))\<close>
proof -
  have h: "hasTestJob (allTestsConfig st bt tr ios pe ps nf nt)"
    by (simp add: hasTestJob_def allTestsConfig_def)
  show ?thesis
    unfolding extractTest_generate allTests_steps
    by (simp add: h mkCommand_def runStep_def orElse_def categorize_yarn hasGHA_yarn)
qed

theorem all_tests_eight_commands_witness:
  "map (\<lambda>cmd. categoryStr (category cmd))
     (extractTestJobCommands (parsedWorkflow sampleUnfixed)
        (allTestsConfig (Some ''github-release'') [''dev''] [''push-main''] False False False
           False None)) =
     [''cache-dir'', ''install'', ''typecheck'', ''lint'', ''format'', ''jest'', ''rntl'', ''hooks'']"
proof -
  let ?cmds = "extractTestJobCommands (parsedWorkflow sampleUnfixed)
        (allTestsConfig (Some ''github-release'') [''dev''] [''push-main''] False False False
           False None)"
  have m: "map category ?cmds = [CacheDir, Install, Typecheck, Lint, Format, Jest, Rntl, Hooks]"
    using all_tests_eight_commands [where u = sampleUnfixed] by blast
  have "map (\<lambda>cmd. categoryStr (category cmd)) ?cmds = map categoryStr (map category ?cmds)"
    by (simp add: comp_def)
  then show ?thesis
    unfolding m by simp
qed


section \<open>The matrix generators\<close>

text \<open>
  C4. In the matrix that \<open>generateNightlyMatrix\<close> returns, the names of the entries are
  pairwise distinct, and so are the command signatures of their configurations. This
  holds whatever document the compiler produces for a configuration: the loop keeps an
  entry only when its signature is new, and the name of a candidate determines its
  package manager, test kinds, test flags and caching flag.
\<close>

theorem generateNightlyMatrix_unique:
  "distinct (map name (generateNightlyMatrix gen)) \<and>
   distinct (map (\<lambda>e. commandSignature gen (config e)) (generateNightlyMatrix gen))"
proof -
  have d: "distinct (map (sigOf gen) (generateNightlyMatrix gen))"
    and sh: "\<forall>e \<in> set (generateNightlyMatrix gen). nightlyShaped e"
    using generateNightlyMatrix_inv [of gen] by simp_all
  have "distinct (map name (generateNightlyMatrix gen))"
  proof (rule distinct_map_transfer [OF d])
    fix x y
    assume "x \<in> set (generateNightlyMatrix gen)" "y \<in> set (generateNightlyMatrix gen)"
      and n: "name x = name y"
    then have "nightlyShaped x" "nightlyShaped y" using sh by simp_all
    then obtain p t j c p' t' j' c' where
      t: "t \<in> set allTestSubsets" and x: "x = nightlyEntry p t j c" and
      t': "t' \<in> set allTestSubsets" and y: "y = nightlyEntry p' t' j' c'"
      unfolding nightlyShaped_def by blast
    have "nightlyName p t j c = nightlyName p' t' j' c'"
      using n x y by (simp add: nightlyEntry_def)
    then have "p = p' \<and> t = t' \<and> j = j' \<and> c = c'"
      using t t' by (intro nightlyName_inj)
    then show "sigOf gen x = sigOf gen y" using x y by simp
  qed
  moreover have "sigOf gen = (\<lambda>e. commandSignature gen (config e))"
    by (rule ext) (simp add: sigOf_def)
  ultimately show ?thesis using d by simp
qed

theorem generateNightlyMatrix_unique_witness:
  "distinct (map name (generateNightlyMatrix (parsedWorkflow sampleUnfixed))) \<and>
   distinct (map (\<lambda>e. commandSignature (parsedWorkflow sampleUnfixed) (config e))
     (generateNightlyMatrix (parsedWorkflow sampleUnfixed))) \<and>
   distinct (map name (generateNightlyMatrix (\<lambda>_. None))) \<and>
   map name (generateNightlyMatrix (\<lambda>_. None)) = [''yarn-no-tests'']"
  using generateNightlyMatrix_unique [of "parsedWorkflow sampleUnfixed"]
    generateNightlyMatrix_unique [of "\<lambda>_. None"] nightly_none
  by simp

text \<open>
  C5. The specification and matrix-generator.test.ts give \<open>generateEasMatrix\<close> nine
  entries, three package managers by three profiles. The function loops over yarn and
  npm only: it returns six entries, three per package manager and none for pnpm. Each
  entry has a list of build types of length one.
\<close>

theorem generateEasMatrix_six_entries:
  "length generateEasMatrix = 6 \<and>
   map name generateEasMatrix =
     [''yarn-eas-development'', ''yarn-eas-production-apk'', ''yarn-eas-production'',
      ''npm-eas-development'', ''npm-eas-production-apk'', ''npm-eas-production''] \<and>
   map (\<lambda>e. packageManager (config e)) generateEasMatrix =
     [Some Yarn, Some Yarn, Some Yarn, Some Npm, Some Npm, Some Npm] \<and>
   map (\<lambda>e. buildTypes (config e)) generateEasMatrix =
     [[''dev''], [''prod-apk''], [''prod-aab''], [''dev''], [''prod-apk''], [''prod-aab'']] \<and>
   list_all (\<lambda>e. length (buildTypes (config e)) = 1) generateEasMatrix"
  by (simp add: generateEasMatrix_def easEntry_def baseConfig_def noOverrides_def
      buildTypeMap_def)

text \<open>
  C10. Every entry of the three generators has the fixture \<open>npm-app\<close> when the package
  manager of its configuration is npm and \<open>yarn-app\<close> otherwise; \<open>fixtureForPkgMgr\<close>
  gives \<open>yarn-app\<close> for every value but npm (unset and pnpm included), and the type of
  the fixture has no third value.
\<close>

theorem fixture_by_packageManager:
  "(\<forall>e \<in> set (generatePrMatrix @ generateNightlyMatrix gen @ generateEasMatrix).
      fixture e = (if packageManager (config e) = Some Npm then NpmApp else YarnApp)) \<and>
   fixtureForPkgMgr (Some Npm) = NpmApp \<and>
   (\<forall>p. p \<noteq> Some Npm \<longrightarrow> fixtureForPkgMgr p = YarnApp) \<and>
   (\<forall>f :: fixture. f = YarnApp \<or> f = NpmApp)"
proof -
  have "\<forall>e \<in> set (generateNightlyMatrix gen).
      fixture e = (if packageManager (config e) = Some Npm then NpmApp else YarnApp)"
    using generateNightlyMatrix_inv [of gen] nightlyShaped_fixture by blast
  moreover have "\<forall>f :: fixture. f = YarnApp \<or> f = NpmApp"
    using fixture.exhaust by blast
  ultimately show ?thesis
    using generatePrMatrix_fixture generateEasMatrix_fixture
    by (simp add: list_all_iff fixtureForPkgMgr_def ball_Un)
qed

theorem fixture_by_packageManager_witness:
  "map fixture (generatePrMatrix @ generateNightlyMatrix (\<lambda>_. None) @ generateEasMatrix) =
     map (\<lambda>e. if packageManager (config e) = Some Npm then NpmApp else YarnApp)
       (generatePrMatrix @ generateNightlyMatrix (\<lambda>_. None) @ generateEasMatrix) \<and>
   fixtureForPkgMgr (Some Pnpm) = YarnApp \<and> fixtureForPkgMgr None = YarnApp \<and>
   map fixture generateEasMatrix = [YarnApp, YarnApp, YarnApp, NpmApp, NpmApp, NpmApp]"
proof -
  have "\<forall>e \<in> set (generatePrMatrix @ generateNightlyMatrix (\<lambda>_. None) @ generateEasMatrix).
      fixture e = (if packageManager (config e) = Some Npm then NpmApp else YarnApp)"
    and "\<forall>p. p \<noteq> Some Npm \<longrightarrow> fixtureForPkgMgr p = YarnApp"
    using fixture_by_packageManager [of "\<lambda>_. None"] by blast+
  moreover have
    "map fixture generateEasMatrix = [YarnApp, YarnApp, YarnApp, NpmApp, NpmApp, NpmApp]"
    by (simp add: generateEasMatrix_def easEntry_def fixtureForPkgMgr_def)
  ultimately show ?thesis
    by (simp only: map_eq_conv) simp
qed


section \<open>The extractor and the runner\<close>

text \<open>
  C8. Unless \<open>includeBuildCommands\<close> is true, no command that \<open>extractBuildJobCommands\<close>
  returns has the category \<open>build\<close> or \<open>other\<close>, for every configuration and every
  compiled document; such commands can only be returned when the option is true.
\<close>

theorem extractBuildJobCommands_skips_build:
  "includeBuildCommands \<noteq> Some True \<Longrightarrow>
   list_all (\<lambda>cmd. category cmd \<noteq> Build \<and> category cmd \<noteq> Other)
     (extractBuildJobCommands gen c includeBuildCommands)"
  by (simp add: extractBuildJobCommands_def buildSteps_category split: option.split)

theorem extractBuildJobCommands_skips_build_witness:
  "list_all (\<lambda>cmd. category cmd \<noteq> Build \<and> category cmd \<noteq> Other)
     (extractBuildJobCommands (\<lambda>_. Some sampleDoc) (baseConfig noOverrides) None) \<and>
   map category (extractBuildJobCommands (\<lambda>_. Some sampleDoc) (baseConfig noOverrides) None) =
     [Install] \<and>
   map category
     (extractBuildJobCommands (\<lambda>_. Some sampleDoc) (baseConfig noOverrides) (Some True)) =
     [Install, Build, Other]"
proof -
  have "None \<noteq> Some True" by simp
  then have "list_all (\<lambda>cmd. category cmd \<noteq> Build \<and> category cmd \<noteq> Other)
     (extractBuildJobCommands (\<lambda>_. Some sampleDoc) (baseConfig noOverrides) None)"
    by (rule extractBuildJobCommands_skips_build)
  then show ?thesis
    using sampleDoc_default sampleDoc_requested by simp
qed

text \<open>
  C9. \<open>allPassed\<close> is true exactly when every result that was not skipped has exit
  code 0; a skipped result can be added to or taken out of the list without changing the
  answer, whatever its other fields hold.
\<close>

theorem allPassed_iff:
  "(allPassed results \<longleftrightarrow> (\<forall>r \<in> set results. \<not> r_skipped r \<longrightarrow> r_exitCode r = 0)) \<and>
   (r_skipped r \<longrightarrow> allPassed (xs @ r # ys) = allPassed (xs @ ys))"
  by (auto simp add: allPassed_def list_all_iff)

theorem allPassed_iff_witness:
  "allPassed [sampleResult 0 False, sampleResult 1 True] \<and>
   \<not> allPassed [sampleResult 0 False, sampleResult 1 False] \<and>
   allPassed ([sampleResult 0 False] @ sampleResult 1 True # []) = allPassed [sampleResult 0 False]"
proof -
  have a: "allPassed [sampleResult 0 False, sampleResult 1 True] \<longleftrightarrow>
      (\<forall>r \<in> set [sampleResult 0 False, sampleResult 1 True]. \<not> r_skipped r \<longrightarrow> r_exitCode r = 0)"
    using allPassed_iff by blast
  have b: "allPassed [sampleResult 0 False, sampleResult 1 False] \<longleftrightarrow>
      (\<forall>r \<in> set [sampleResult 0 False, sampleResult 1 False]. \<not> r_skipped r \<longrightarrow> r_exitCode r = 0)"
    using allPassed_iff by blast
  have c: "r_skipped (sampleResult 1 True) \<longrightarrow>
      allPassed ([sampleResult 0 False] @ sampleResult 1 True # []) =
      allPassed ([sampleResult 0 False] @ [])"
    using allPassed_iff by blast
  show ?thesis
    using a b c by (simp add: sampleResult_def)
qed

end
